theory Spec2Isabelle
  imports Main
begin

section \<open>Data model\<close>

text \<open>
  The views of \<^verbatim>\<open>accounts/views/base.py\<close> read and write three tables through
  the object-relational layer: platform users, accounts, and account-users (the
  association of a user with an account). A row is a record, a table is the list of
  its rows in insertion order, and the database is passed through every view
  method that touches it.
\<close>

type_synonym url = string
type_synonym pk = nat

record user =
  user_pk :: pk
  username :: string
  first_name :: string
  last_name :: string
  email :: string
  password :: string
  is_staff :: bool
  is_active :: bool
  is_superuser :: bool
  last_login :: nat
  date_joined :: nat

record account =
  account_pk :: pk
  account_name :: string

record accountuser =
  accountuser_pk :: pk
  au_user :: pk
  au_account :: pk

record db =
  users :: "user list"
  accounts :: "account list"
  accountusers :: "accountuser list"

text \<open>
  Every exception the views can raise is a value; a view method returns
  \<open>error + response\<close> with \<open>Inl\<close> for the raised exception.
\<close>

datatype error =
    Http404 string
  | NameError string
  | NoReverseMatch string
  | AttributeError string

text \<open>
  A bound form: the submitted data and, when validation succeeded, the cleaned
  data. \<open>form.is_valid()\<close> is true exactly when cleaned data exist.
\<close>

record 'c form =
  form_data :: "string \<rightharpoonup> string"
  form_initial :: "string \<rightharpoonup> string"
  form_cleaned :: "'c option"

definition is_valid :: "'c form \<Rightarrow> bool" where
  "is_valid f = (form_cleaned f \<noteq> None)"

datatype 'c ctx_value =
    CtxAccount account
  | CtxAccountUsers "accountuser list"
  | CtxForm "'c form"
  | CtxBool bool

type_synonym 'c ctx = "string \<rightharpoonup> 'c ctx_value"

text \<open>
  A response is a redirect to a URL, or the template rendered with a context
  (\<open>render_to_response(context)\<close>).
\<close>

datatype 'c response =
    HttpResponseRedirect url
  | TemplateResponse string "'c ctx"

type_synonym kwargs = "string \<rightharpoonup> pk"

record request =
  POST :: "string \<rightharpoonup> string"
  META :: "string \<rightharpoonup> string"
  request_user :: user

text \<open>
  The cleaned data of the three form classes. \<open>ProfileUserForm\<close> has the fields
  that \<open>UserProfileView\<close> reads; a value that may be \<open>None\<close> in Python is an
  option.
\<close>

record profile_cleaned =
  cd_username :: string
  cd_first_name :: string
  cd_last_name :: string
  cd_email :: string
  cd_password1 :: string
  cd_referrer :: "string option"

record account_cleaned =
  ac_name :: string

record accountuser_cleaned =
  auc_username :: string
  auc_first_name :: string
  auc_last_name :: string
  auc_email :: string

section \<open>Collaborators outside the file\<close>

text \<open>
  What the views call and the file does not define is a field of the environment:
  the URL configuration behind \<open>reverse\<close>, the password hasher behind
  \<open>set_password\<close>, the \<open>get_absolute_url\<close> methods of the two models, the
  object lookups of the two single-object mixins, the validation of each form
  class, the \<open>allow_empty\<close> attribute, class name and template of the list view,
  and the binding of the name \<open>_\<close> in the builtins namespace. The module binds
  the names it imports and the classes it defines; \<open>_\<close> is not among them, so a
  use of \<open>_\<close> is resolved in builtins, and raises \<open>NameError\<close> when builtins
  has no such name.
\<close>

record env =
  url_reverse :: "string \<Rightarrow> string list \<Rightarrow> url option"
  make_password :: "string \<Rightarrow> string"
  account_get_absolute_url :: "account \<Rightarrow> url"
  accountuser_get_absolute_url :: "accountuser \<Rightarrow> url"
  account_get_object :: "db \<Rightarrow> kwargs \<Rightarrow> error + account"
  account_get_account :: "db \<Rightarrow> kwargs \<Rightarrow> error + account"
  accountuser_get_object :: "db \<Rightarrow> kwargs \<Rightarrow> error + accountuser"
  AccountAddForm_clean :: "(string \<rightharpoonup> string) \<Rightarrow> account_cleaned option"
  AccountUserAddForm_clean :: "(string \<rightharpoonup> string) \<Rightarrow> accountuser_cleaned option"
  ProfileUserForm_clean :: "(string \<rightharpoonup> string) \<Rightarrow> profile_cleaned option"
  allow_empty :: bool
  class_name :: string
  list_template_name :: string
  builtins_underscore :: "(string \<Rightarrow> string) option"

section \<open>Framework behaviour used by the views\<close>

text \<open>\<open>reverse(name)\<close>: the URL of a named route, or \<open>NoReverseMatch\<close>.\<close>

definition reverse :: "env \<Rightarrow> string \<Rightarrow> error + url" where
  "reverse e name =
     (case url_reverse e name [] of
        None \<Rightarrow> Inl (NoReverseMatch name)
      | Some u \<Rightarrow> Inr u)"

text \<open>
  \<open>get_form(form_class)\<close> binds the form class to the request's POST data;
  validation is the form class's.
\<close>

definition get_form :: "((string \<rightharpoonup> string) \<Rightarrow> 'c option) \<Rightarrow> request \<Rightarrow> 'c form" where
  "get_form clean req =
     \<lparr>form_data = POST req, form_initial = Map.empty, form_cleaned = clean (POST req)\<rparr>"

text \<open>
  The \<open>get_context_data\<close> that the views inherit returns its keyword arguments
  as the context.
\<close>

definition get_context_data :: "'c ctx \<Rightarrow> 'c ctx" where
  "get_context_data kw = kw"

definition render_to_response :: "string \<Rightarrow> 'c ctx \<Rightarrow> 'c response" where
  "render_to_response template_name context = TemplateResponse template_name context"

text \<open>\<open>FormMixin.form_invalid\<close>: render the template again with the bound form.\<close>

definition form_invalid :: "string \<Rightarrow> 'c form \<Rightarrow> 'c response" where
  "form_invalid template_name f =
     render_to_response template_name (get_context_data [''form'' \<mapsto> CtxForm f])"

text \<open>\<open>FormMixin.form_valid\<close>: redirect to the view's success URL.\<close>

definition FormView_form_valid :: "url \<Rightarrow> 'c response" where
  "FormView_form_valid target = HttpResponseRedirect target"

text \<open>
  \<open>Model.save()\<close>: the row with the object's primary key is replaced, and the
  object is inserted when no row has that key. \<open>Model.delete()\<close> removes the
  rows with the object's key.
\<close>

fun save_row :: "('a \<Rightarrow> pk) \<Rightarrow> 'a \<Rightarrow> 'a list \<Rightarrow> 'a list" where
  "save_row key r [] = [r]"
| "save_row key r (x # xs) = (if key x = key r then r # xs else x # save_row key r xs)"

definition get_row :: "('a \<Rightarrow> pk) \<Rightarrow> pk \<Rightarrow> 'a list \<Rightarrow> 'a option" where
  "get_row key k rows = find (\<lambda>x. key x = k) rows"

definition delete_row :: "('a \<Rightarrow> pk) \<Rightarrow> pk \<Rightarrow> 'a list \<Rightarrow> 'a list" where
  "delete_row key k rows = filter (\<lambda>x. key x \<noteq> k) rows"

text \<open>A new row gets a key above every key of its table.\<close>

definition next_pk :: "('a \<Rightarrow> pk) \<Rightarrow> 'a list \<Rightarrow> pk" where
  "next_pk key rows = Suc (foldr (\<lambda>r m. max (key r) m) rows 0)"

definition user_save :: "db \<Rightarrow> user \<Rightarrow> db" where
  "user_save d u = d\<lparr>users := save_row user_pk u (users d)\<rparr>"

text \<open>\<open>User.set_password(raw)\<close>: the password field becomes the hash of \<open>raw\<close>.\<close>

definition set_password :: "env \<Rightarrow> user \<Rightarrow> string \<Rightarrow> user" where
  "set_password e u raw = u\<lparr>password := make_password e raw\<rparr>"

text \<open>
  Deleting an account also deletes the account-users that reference it; deleting
  an account-user deletes that row only.
\<close>

definition account_delete :: "db \<Rightarrow> account \<Rightarrow> db" where
  "account_delete d a =
     d\<lparr>accounts := delete_row account_pk (account_pk a) (accounts d),
       accountusers := delete_row au_account (account_pk a) (accountusers d)\<rparr>"


text \<open>
  \<open>template % {key: v}\<close> for a template whose only conversions are
  \<open>%(key)s\<close>: each one is replaced by \<open>v\<close>.
\<close>

fun py_format :: "string \<Rightarrow> string \<Rightarrow> string \<Rightarrow> string" where
  "py_format key v [] = []"
| "py_format key v (c # cs) =
     (let tok = ''%('' @ key @ '')s'' in
      if take (length tok) (c # cs) = tok
      then v @ py_format key v (drop (length tok) (c # cs))
      else c # py_format key v cs)"

section \<open>Models and forms of the application\<close>

text \<open>
  Modelled from the spec: \<open>Account.users.all()\<close> of \<^verbatim>\<open>accounts/models.py\<close>,
  which is not among the sources. An account has a collection of users, and an
  account-user belongs to an account: the collection is the account-users whose
  account is this one, in table order.
\<close>

definition users_all :: "db \<Rightarrow> account \<Rightarrow> accountuser list" where
  "users_all d a = filter (\<lambda>au. au_account au = account_pk a) (accountusers d)"

text \<open>
  Modelled from the spec: \<open>AccountAddForm.save()\<close> of \<^verbatim>\<open>accounts/forms.py\<close>,
  which is not among the sources. On a valid submission it persists a new account
  and returns it.
\<close>

definition AccountAddForm_save :: "db \<Rightarrow> account_cleaned form \<Rightarrow> db \<times> (error + account)" where
  "AccountAddForm_save d f =
     (case form_cleaned f of
        None \<Rightarrow> (d, Inl (AttributeError ''cleaned_data''))
      | Some cd \<Rightarrow>
          let a = \<lparr>account_pk = next_pk account_pk (accounts d), account_name = ac_name cd\<rparr>
          in (d\<lparr>accounts := accounts d @ [a]\<rparr>, Inr a))"

text \<open>
  Modelled from the spec: \<open>AccountUserAddForm.save(account)\<close> of
  \<^verbatim>\<open>accounts/forms.py\<close>, which is not among the sources. On a valid submission
  it creates a user record, then the account-user that associates it with the
  given account, and returns the account-user.
\<close>

definition AccountUserAddForm_save ::
    "db \<Rightarrow> accountuser_cleaned form \<Rightarrow> account \<Rightarrow> db \<times> (error + accountuser)" where
  "AccountUserAddForm_save d f a =
     (case form_cleaned f of
        None \<Rightarrow> (d, Inl (AttributeError ''cleaned_data''))
      | Some cd \<Rightarrow>
          let u = \<lparr>user_pk = next_pk user_pk (users d),
                   username = auc_username cd,
                   first_name = auc_first_name cd,
                   last_name = auc_last_name cd,
                   email = auc_email cd,
                   password = [],
                   is_staff = False,
                   is_active = True,
                   is_superuser = False,
                   last_login = 0,
                   date_joined = 0\<rparr>;
              au = \<lparr>accountuser_pk = next_pk accountuser_pk (accountusers d),
                    au_user = user_pk u,
                    au_account = account_pk a\<rparr>
          in (d\<lparr>users := users d @ [u], accountusers := accountusers d @ [au]\<rparr>, Inr au))"

section \<open>BaseAccountCreate\<close>

definition account_form_template :: string where
  "account_form_template = ''accounts/account_form.html''"

definition BaseAccountCreate_get_success_url :: "env \<Rightarrow> account \<Rightarrow> url" where
  "BaseAccountCreate_get_success_url e self_object = account_get_absolute_url e self_object"

text \<open>
  \<open>self.object = form.save()\<close>, then the inherited \<open>form_valid\<close>, which
  redirects to \<open>self.get_success_url()\<close>.
\<close>

definition BaseAccountCreate_form_valid ::
    "env \<Rightarrow> db \<Rightarrow> account_cleaned form \<Rightarrow> db \<times> (error + account_cleaned response)" where
  "BaseAccountCreate_form_valid e d f =
     (case AccountAddForm_save d f of
        (d', Inl err) \<Rightarrow> (d', Inl err)
      | (d', Inr self_object) \<Rightarrow>
          (d', Inr (FormView_form_valid (BaseAccountCreate_get_success_url e self_object))))"

text \<open>The inherited \<open>post\<close> of the generic form view.\<close>

definition BaseAccountCreate_post ::
    "env \<Rightarrow> db \<Rightarrow> request \<Rightarrow> db \<times> (error + account_cleaned response)" where
  "BaseAccountCreate_post e d req =
     (let f = get_form (AccountAddForm_clean e) req
      in if is_valid f then BaseAccountCreate_form_valid e d f
         else (d, Inr (form_invalid account_form_template f)))"

section \<open>BaseAccountDelete and BaseAccountUserDelete\<close>

definition BaseAccountDelete_get_success_url :: "env \<Rightarrow> error + url" where
  "BaseAccountDelete_get_success_url e = reverse e ''account_list''"

text \<open>
  The inherited \<open>delete\<close> of the generic delete view: look the object up, delete
  it, redirect to \<open>self.get_success_url()\<close>.
\<close>

definition BaseAccountDelete_delete :: "env \<Rightarrow> db \<Rightarrow> kwargs \<Rightarrow> db \<times> (error + 'c response)" where
  "BaseAccountDelete_delete e d kw =
     (case account_get_object e d kw of
        Inl err \<Rightarrow> (d, Inl err)
      | Inr self_object \<Rightarrow>
          let d' = account_delete d self_object in
          (case BaseAccountDelete_get_success_url e of
             Inl err \<Rightarrow> (d', Inl err)
           | Inr target \<Rightarrow> (d', Inr (HttpResponseRedirect target))))"



section \<open>BaseAccountUserList\<close>

definition empty_list_message :: string where
  "empty_list_message = ''Empty list and '%(class_name)s.allow_empty' is False.''"

text \<open>
  \<open>BaseAccountUserList.get\<close>. The argument of \<open>Http404\<close> is evaluated before
  the exception is built: the name \<open>_\<close> is looked up first, then called on the
  message, and the result is formatted with the class name.
\<close>

definition BaseAccountUserList_get :: "env \<Rightarrow> db \<Rightarrow> kwargs \<Rightarrow> error + 'c response" where
  "BaseAccountUserList_get e d kw =
     (case account_get_account e d kw of
        Inl err \<Rightarrow> Inl err
      | Inr self_account \<Rightarrow>
          let object_list = users_all d self_account in
          if \<not> allow_empty e \<and> length object_list = 0 then
            (case builtins_underscore e of
               None \<Rightarrow> Inl (NameError ''_'')
             | Some gettext \<Rightarrow>
                 Inl (Http404 (py_format ''class_name'' (class_name e) (gettext empty_list_message))))
          else
            Inr (render_to_response (list_template_name e)
                   (get_context_data [''accountusers'' \<mapsto> CtxAccountUsers object_list,
                                      ''account'' \<mapsto> CtxAccount self_account])))"

section \<open>BaseAccountUserCreate\<close>

definition accountuser_form_template :: string where
  "accountuser_form_template = ''accounts/accountuser_form.html''"

definition BaseAccountUserCreate_get_success_url :: "env \<Rightarrow> account \<Rightarrow> url" where
  "BaseAccountUserCreate_get_success_url e self_object = account_get_absolute_url e self_object"

text \<open>
  \<open>form.save(self.object)\<close>, whose result is dropped, then the inherited
  \<open>form_valid\<close>. \<open>self.object\<close> is still the account that \<open>post\<close> stored.
\<close>

definition BaseAccountUserCreate_form_valid ::
    "env \<Rightarrow> db \<Rightarrow> account \<Rightarrow> accountuser_cleaned form
       \<Rightarrow> db \<times> (error + accountuser_cleaned response)" where
  "BaseAccountUserCreate_form_valid e d self_object f =
     (case AccountUserAddForm_save d f self_object of
        (d', Inl err) \<Rightarrow> (d', Inl err)
      | (d', Inr _) \<Rightarrow>
          (d', Inr (FormView_form_valid (BaseAccountUserCreate_get_success_url e self_object))))"

definition BaseAccountUserCreate_post ::
    "env \<Rightarrow> db \<Rightarrow> request \<Rightarrow> kwargs \<Rightarrow> db \<times> (error + accountuser_cleaned response)" where
  "BaseAccountUserCreate_post e d req kw =
     (case account_get_object e d kw of
        Inl err \<Rightarrow> (d, Inl err)
      | Inr self_object \<Rightarrow>
          let f = get_form (AccountUserAddForm_clean e) req
          in if is_valid f then BaseAccountUserCreate_form_valid e d self_object f
             else (d, Inr (form_invalid accountuser_form_template f)))"

section \<open>UserProfileView\<close>

definition success_url :: url where
  "success_url = ''/''"

text \<open>
  \<open>HttpResponseRedirect(referrer or self.success_url)\<close>: Python's \<open>or\<close> yields
  its left operand when that is truthy; \<open>None\<close> and the empty string are falsy.
\<close>

definition success_redirect :: "string option \<Rightarrow> 'c response" where
  "success_redirect referrer =
     HttpResponseRedirect
       (case referrer of
          None \<Rightarrow> success_url
        | Some r \<Rightarrow> if r = [] then success_url else r)"

text \<open>
  \<open>UserProfileView.form_valid\<close>, with \<open>self.user\<close> the user that \<open>post\<close>
  stored. Reading \<open>cleaned_data\<close> of a form that did not validate raises
  \<open>AttributeError\<close>.
\<close>

definition UserProfileView_form_valid ::
    "env \<Rightarrow> db \<Rightarrow> user \<Rightarrow> profile_cleaned form \<Rightarrow> db \<times> (error + profile_cleaned response)" where
  "UserProfileView_form_valid e d self_user f =
     (case form_cleaned f of
        None \<Rightarrow> (d, Inl (AttributeError ''cleaned_data''))
      | Some cd \<Rightarrow>
          let u1 = self_user\<lparr>username := cd_username cd\<rparr>;
              u2 = u1\<lparr>first_name := cd_first_name cd\<rparr>;
              u3 = u2\<lparr>last_name := cd_last_name cd\<rparr>;
              u4 = u3\<lparr>email := cd_email cd\<rparr>;
              u5 = (if cd_password1 cd \<noteq> [] then set_password e u4 (cd_password1 cd) else u4);
              d' = user_save d u5
          in (d', Inr (success_redirect (cd_referrer cd))))"

text \<open>
  \<open>UserProfileView.get_context_data\<close> sets \<open>profile\<close> to \<open>True\<close> in the
  inherited context.
\<close>

definition UserProfileView_get_context_data :: "'c ctx \<Rightarrow> 'c ctx" where
  "UserProfileView_get_context_data kw = (get_context_data kw)(''profile'' \<mapsto> CtxBool True)"

text \<open>
  \<open>UserProfileView.post\<close>: \<open>self.user = request.user\<close>, then the inherited
  \<open>post\<close>, which validates the bound form and calls \<open>form_valid\<close> or
  \<open>form_invalid\<close>.
\<close>

definition UserProfileView_post ::
    "env \<Rightarrow> db \<Rightarrow> request \<Rightarrow> db \<times> (error + profile_cleaned response)" where
  "UserProfileView_post e d req =
     (let self_user = request_user req;
          f = get_form (ProfileUserForm_clean e) req
      in if is_valid f then UserProfileView_form_valid e d self_user f
         else (d, Inr (render_to_response accountuser_form_template
                         (UserProfileView_get_context_data [''form'' \<mapsto> CtxForm f]))))"

section \<open>A concrete installation\<close>

text \<open>
  An environment and a database on which the views are run: the account list
  route without arguments, the account-user list route under the key of its
  account (the list view resolves its account from the route), detail pages
  addressed by primary key, a toy password hasher, forms that require a user name
  or an account name, and the standard builtins, where \<open>_\<close> is unbound.
\<close>

fun show_nat :: "nat \<Rightarrow> string" where
  "show_nat n =
     (if n < 10 then [''0123456789'' ! n]
      else show_nat (n div 10) @ [''0123456789'' ! (n mod 10)])"

declare show_nat.simps [simp del]

definition field :: "(string \<rightharpoonup> string) \<Rightarrow> string \<Rightarrow> string" where
  "field post k = (case post k of None \<Rightarrow> [] | Some v \<Rightarrow> v)"

text \<open>
  Modelled from the spec: \<open>get_object\<close> and \<open>get_account\<close> of
  \<open>AccountSingleObjectMixin\<close> (\<^verbatim>\<open>accounts/views/mixins.py\<close> is not among the
  sources). The account is resolved by the identifier in the route's keyword
  arguments, and an unknown identifier is a "not found".
\<close>

definition get_account_by_pk :: "db \<Rightarrow> kwargs \<Rightarrow> error + account" where
  "get_account_by_pk d kw =
     (case kw ''account_pk'' of
        None \<Rightarrow> Inl (Http404 ''No Account matches the given query.'')
      | Some k \<Rightarrow>
          (case get_row account_pk k (accounts d) of
             None \<Rightarrow> Inl (Http404 ''No Account matches the given query.'')
           | Some a \<Rightarrow> Inr a))"

text \<open>
  Modelled from the spec: \<open>get_object\<close> of \<open>AccountUserSingleObjectMixin\<close>,
  scoped under the parent account.
\<close>

definition get_accountuser_by_pk :: "db \<Rightarrow> kwargs \<Rightarrow> error + accountuser" where
  "get_accountuser_by_pk d kw =
     (case get_account_by_pk d kw of
        Inl err \<Rightarrow> Inl err
      | Inr a \<Rightarrow>
          (case kw ''accountuser_pk'' of
             None \<Rightarrow> Inl (Http404 ''No AccountUser matches the given query.'')
           | Some k \<Rightarrow>
               (case get_row accountuser_pk k (users_all d a) of
                  None \<Rightarrow> Inl (Http404 ''No AccountUser matches the given query.'')
                | Some au \<Rightarrow> Inr au)))"

definition example_urls :: "string \<Rightarrow> string list \<Rightarrow> url option" where
  "example_urls name args =
     (if name = ''account_list'' \<and> args = [] then Some ''/accounts/''
      else if name = ''accountuser_list'' then
        (case args of
           [account_key] \<Rightarrow> Some (''/accounts/'' @ account_key @ ''/people/'')
         | _ \<Rightarrow> None)
      else None)"

definition example_account_clean :: "(string \<rightharpoonup> string) \<Rightarrow> account_cleaned option" where
  "example_account_clean post =
     (if field post ''name'' = [] then None else Some \<lparr>ac_name = field post ''name''\<rparr>)"

definition example_accountuser_clean :: "(string \<rightharpoonup> string) \<Rightarrow> accountuser_cleaned option" where
  "example_accountuser_clean post =
     (if field post ''username'' = [] then None
      else Some \<lparr>auc_username = field post ''username'',
                 auc_first_name = field post ''first_name'',
                 auc_last_name = field post ''last_name'',
                 auc_email = field post ''email''\<rparr>)"

definition example_profile_clean :: "(string \<rightharpoonup> string) \<Rightarrow> profile_cleaned option" where
  "example_profile_clean post =
     (if field post ''username'' = [] then None
      else Some \<lparr>cd_username = field post ''username'',
                 cd_first_name = field post ''first_name'',
                 cd_last_name = field post ''last_name'',
                 cd_email = field post ''email'',
                 cd_password1 = field post ''password1'',
                 cd_referrer = Some (field post ''referrer'')\<rparr>)"

definition example_env :: env where
  "example_env =
     \<lparr>url_reverse = example_urls,
      make_password = (\<lambda>raw. ''plain$'' @ raw),
      account_get_absolute_url = (\<lambda>a. ''/accounts/'' @ show_nat (account_pk a) @ ''/''),
      accountuser_get_absolute_url =
        (\<lambda>au. ''/accounts/'' @ show_nat (au_account au) @ ''/people/''
                @ show_nat (accountuser_pk au) @ ''/''),
      account_get_object = get_account_by_pk,
      account_get_account = get_account_by_pk,
      accountuser_get_object = get_accountuser_by_pk,
      AccountAddForm_clean = example_account_clean,
      AccountUserAddForm_clean = example_accountuser_clean,
      ProfileUserForm_clean = example_profile_clean,
      allow_empty = False,
      class_name = ''BaseAccountUserList'',
      list_template_name = ''accounts/accountuser_list.html'',
      builtins_underscore = None\<rparr>"

definition alice :: user where
  "alice =
     \<lparr>user_pk = 1, username = ''alice'', first_name = ''Alice'', last_name = ''Ames'',
      email = ''alice@example.com'', password = ''plain$old'', is_staff = True,
      is_active = True, is_superuser = False, last_login = 7, date_joined = 3\<rparr>"

definition bob :: user where
  "bob =
     \<lparr>user_pk = 2, username = ''bob'', first_name = ''Bob'', last_name = ''Bell'',
      email = ''bob@example.com'', password = ''plain$bob'', is_staff = False,
      is_active = True, is_superuser = False, last_login = 5, date_joined = 4\<rparr>"

definition acme :: account where
  "acme = \<lparr>account_pk = 1, account_name = ''Acme''\<rparr>"

definition globex :: account where
  "globex = \<lparr>account_pk = 2, account_name = ''Globex''\<rparr>"

text \<open>Acme has two users, Globex has none.\<close>

definition example_db :: db where
  "example_db =
     \<lparr>users = [alice, bob],
      accounts = [acme, globex],
      accountusers =
        [\<lparr>accountuser_pk = 1, au_user = 1, au_account = 1\<rparr>,
         \<lparr>accountuser_pk = 2, au_user = 2, au_account = 1\<rparr>]\<rparr>"


definition example_request :: "(string \<rightharpoonup> string) \<Rightarrow> request" where
  "example_request post = \<lparr>POST = post, META = Map.empty, request_user = alice\<rparr>"

section \<open>Facts about tables\<close>

lemma get_row_save_row: "get_row key (key r) (save_row key r rows) = Some r"
  by (induction rows) (simp_all add: get_row_def)

lemma get_row_save_row_other:
  "k \<noteq> key r \<Longrightarrow> get_row key k (save_row key r rows) = get_row key k rows"
  by (induction rows) (simp_all add: get_row_def)

lemma key_less_next_pk: "x \<in> set rows \<Longrightarrow> key x < next_pk key rows"
  by (induction rows) (auto simp: next_pk_def)

lemma get_row_save_row_key:
  "key r = k \<Longrightarrow> get_row key k (save_row key r rows) = Some r"
  using get_row_save_row [of key r rows] by simp

lemma get_row_append_fresh:
  "\<forall>x \<in> set rows. key x \<noteq> key r \<Longrightarrow> get_row key (key r) (rows @ [r]) = Some r"
  by (induction rows) (simp_all add: get_row_def)

lemma next_pk_fresh: "x \<in> set rows \<Longrightarrow> key x \<noteq> next_pk key rows"
  using key_less_next_pk [of x rows key] by simp

section \<open>Facts about the concrete installation\<close>

lemma show_nat_examples:
  "show_nat (Suc 0) = ''1''" "show_nat 1 = ''1''" "show_nat 2 = ''2''" "show_nat 3 = ''3''"
  by (simp_all add: show_nat.simps)

lemma example_post_valid:
  "AccountUserAddForm_clean example_env (POST (example_request [''username'' \<mapsto> ''carol'']))
     = Some \<lparr>auc_username = ''carol'', auc_first_name = [], auc_last_name = [], auc_email = []\<rparr>"
  by (simp add: example_env_def example_request_def example_accountuser_clean_def field_def)

lemma example_get_acme:
  "account_get_object example_env example_db [''account_pk'' \<mapsto> 1] = Inr acme"
  by (simp add: example_env_def example_db_def get_account_by_pk_def get_row_def acme_def)

lemma example_create_carol:
  "BaseAccountUserCreate_post example_env example_db
     (example_request [''username'' \<mapsto> ''carol'']) [''account_pk'' \<mapsto> 1]
   = (example_db
        \<lparr>users := users example_db @
           [\<lparr>user_pk = 3, username = ''carol'', first_name = [], last_name = [], email = [],
             password = [], is_staff = False, is_active = True, is_superuser = False,
             last_login = 0, date_joined = 0\<rparr>],
         accountusers := accountusers example_db @
           [\<lparr>accountuser_pk = 3, au_user = 3, au_account = 1\<rparr>]\<rparr>,
      Inr (HttpResponseRedirect ''/accounts/1/''))"
  by (simp add: BaseAccountUserCreate_post_def BaseAccountUserCreate_form_valid_def
      BaseAccountUserCreate_get_success_url_def FormView_form_valid_def
      AccountUserAddForm_save_def get_form_def is_valid_def Let_def next_pk_def
      example_env_def example_db_def example_request_def example_accountuser_clean_def
      field_def get_account_by_pk_def get_row_def acme_def globex_def alice_def bob_def
      show_nat_examples)

lemma example_profile_valid:
  "ProfileUserForm_clean example_env
     (POST (example_request [''username'' \<mapsto> ''alice2'', ''email'' \<mapsto> ''a2@example.com'',
                             ''password1'' \<mapsto> ''new'']))
   = Some \<lparr>cd_username = ''alice2'', cd_first_name = [], cd_last_name = [],
           cd_email = ''a2@example.com'', cd_password1 = ''new'', cd_referrer = Some []\<rparr>"
  by (simp add: example_env_def example_request_def example_profile_clean_def field_def)

lemma example_next_account_pk: "next_pk account_pk (accounts example_db) = 3"
  by (simp add: next_pk_def example_db_def acme_def globex_def)

lemma example_alice_stored:
  "get_row user_pk (user_pk (request_user (example_request post))) (users example_db)
     = Some (request_user (example_request post))"
  by (simp add: example_request_def example_db_def get_row_def alice_def)




section \<open>The account-user list\<close>

text \<open>
  When the list is not empty or empty lists are allowed, the view renders the list
  with the account and its users in the context.
\<close>

lemma BaseAccountUserList_get_renders:
  assumes "account_get_account e d kw = Inr a"
    and "allow_empty e \<or> users_all d a \<noteq> []"
  shows "BaseAccountUserList_get e d kw =
           Inr (TemplateResponse (list_template_name e)
                  [''accountusers'' \<mapsto> CtxAccountUsers (users_all d a),
                   ''account'' \<mapsto> CtxAccount a])"
  using assms
  by (auto simp: BaseAccountUserList_get_def render_to_response_def get_context_data_def Let_def)

text \<open>
  When the list is empty and empty lists are not allowed, the outcome depends on the
  name \<open>_\<close>: \<open>Http404\<close> where builtins binds it, \<open>NameError\<close> where it does
  not.
\<close>

lemma BaseAccountUserList_get_empty:
  assumes "account_get_account e d kw = Inr a"
    and "\<not> allow_empty e"
    and "users_all d a = []"
  shows "BaseAccountUserList_get e d kw =
           (case builtins_underscore e of
              None \<Rightarrow> Inl (NameError ''_'')
            | Some gettext \<Rightarrow>
                Inl (Http404 (py_format ''class_name'' (class_name e)
                                (gettext empty_list_message))))"
  using assms
  by (simp add: BaseAccountUserList_get_def Let_def)

text \<open>
  Claim C1: a GET of the account-user list for an account with no users, when empty
  results are not allowed, fails with \<open>Http404\<close>. The view is run here on the
  account Globex, which has no users, with \<open>allow_empty\<close> false and the standard
  builtins: evaluating the argument of \<open>Http404\<close> looks up the name \<open>_\<close>, which
  nothing binds, and the view raises \<open>NameError\<close> before any \<open>Http404\<close> exists.
\<close>

theorem C1_empty_list_raises_NameError:
  "account_get_account example_env example_db [''account_pk'' \<mapsto> 2] = Inr globex
   \<and> users_all example_db globex = []
   \<and> \<not> allow_empty example_env
   \<and> builtins_underscore example_env = None
   \<and> (BaseAccountUserList_get example_env example_db [''account_pk'' \<mapsto> 2]
      :: error + unit response) = Inl (NameError ''_'')"
  by (simp add: BaseAccountUserList_get_def example_env_def example_db_def
      get_account_by_pk_def get_row_def users_all_def acme_def globex_def)

section \<open>Creating an account-user\<close>

text \<open>
  Claim C2, as amended: for every valid account-user creation form submitted
  against an account that the route resolves, the response is a redirect to the
  absolute URL of that parent account (\<open>self.object\<close> is the account, and the
  result of \<open>form.save\<close> is dropped).
\<close>

theorem C2_redirects_to_account:
  assumes "account_get_object e d kw = Inr a"
    and "is_valid (get_form (AccountUserAddForm_clean e) req)"
  shows "snd (BaseAccountUserCreate_post e d req kw)
           = Inr (HttpResponseRedirect (account_get_absolute_url e a))"
  using assms
  by (auto simp: BaseAccountUserCreate_post_def BaseAccountUserCreate_form_valid_def
      BaseAccountUserCreate_get_success_url_def FormView_form_valid_def
      AccountUserAddForm_save_def is_valid_def Let_def split: option.splits)

theorem C2_redirects_to_account_witness:
  "account_get_object example_env example_db [''account_pk'' \<mapsto> 1] = Inr acme
   \<and> is_valid (get_form (AccountUserAddForm_clean example_env)
                 (example_request [''username'' \<mapsto> ''carol'']))
   \<and> snd (BaseAccountUserCreate_post example_env example_db
            (example_request [''username'' \<mapsto> ''carol'']) [''account_pk'' \<mapsto> 1])
       = Inr (HttpResponseRedirect ''/accounts/1/'')"
proof -
  have h1: "account_get_object example_env example_db [''account_pk'' \<mapsto> 1] = Inr acme"
    by (rule example_get_acme)
  have h2: "is_valid (get_form (AccountUserAddForm_clean example_env)
                 (example_request [''username'' \<mapsto> ''carol'']))"
    by (simp add: is_valid_def get_form_def example_post_valid)
  have u: "account_get_absolute_url example_env acme = ''/accounts/1/''"
    by (simp add: example_env_def acme_def show_nat_examples)
  from C2_redirects_to_account [OF h1 h2] h1 h2 u show ?thesis by (simp only: simp_thms)
qed

text \<open>
  The claim C2 as stated, a redirect to the detail page of the new account-user,
  fails: creating Carol under Acme makes the account-user 3, whose page is
  \<^verbatim>\<open>/accounts/1/people/3/\<close>, and the response redirects to \<^verbatim>\<open>/accounts/1/\<close>.
\<close>

theorem C2_counterexample:
  "is_valid (get_form (AccountUserAddForm_clean example_env)
               (example_request [''username'' \<mapsto> ''carol'']))
   \<and> accountusers (fst (BaseAccountUserCreate_post example_env example_db
                          (example_request [''username'' \<mapsto> ''carol''])
                          [''account_pk'' \<mapsto> 1]))
       = accountusers example_db @ [\<lparr>accountuser_pk = 3, au_user = 3, au_account = 1\<rparr>]
   \<and> snd (BaseAccountUserCreate_post example_env example_db
            (example_request [''username'' \<mapsto> ''carol'']) [''account_pk'' \<mapsto> 1])
       = Inr (HttpResponseRedirect ''/accounts/1/'')
   \<and> accountuser_get_absolute_url example_env
         \<lparr>accountuser_pk = 3, au_user = 3, au_account = 1\<rparr> = ''/accounts/1/people/3/''
   \<and> snd (BaseAccountUserCreate_post example_env example_db
            (example_request [''username'' \<mapsto> ''carol'']) [''account_pk'' \<mapsto> 1])
       \<noteq> Inr (HttpResponseRedirect
                (accountuser_get_absolute_url example_env
                   \<lparr>accountuser_pk = 3, au_user = 3, au_account = 1\<rparr>))"
proof -
  have v: "is_valid (get_form (AccountUserAddForm_clean example_env)
               (example_request [''username'' \<mapsto> ''carol'']))"
    by (simp add: is_valid_def get_form_def example_post_valid)
  have u: "accountuser_get_absolute_url example_env
         \<lparr>accountuser_pk = 3, au_user = 3, au_account = 1\<rparr> = ''/accounts/1/people/3/''"
    by (simp add: example_env_def show_nat_examples)
  show ?thesis
    unfolding example_create_carol u using v by simp
qed

text \<open>
  Claim C3: for every valid account-user creation form submitted against the
  account resolved from the route, that account is the one passed to the form's
  \<open>save\<close>, and the user record the submission creates is associated with it:
  one user and one account-user are added, the account-user links that user to
  the resolved account, and it is the new last element of the account's users.
\<close>

theorem C3_new_user_belongs_to_resolved_account:
  assumes "account_get_object e d kw = Inr a"
    and "is_valid (get_form (AccountUserAddForm_clean e) req)"
  shows "\<exists>u au. fst (BaseAccountUserCreate_post e d req kw)
                   = fst (AccountUserAddForm_save d (get_form (AccountUserAddForm_clean e) req) a)
              \<and> users (fst (BaseAccountUserCreate_post e d req kw)) = users d @ [u]
              \<and> accountusers (fst (BaseAccountUserCreate_post e d req kw)) = accountusers d @ [au]
              \<and> au_user au = user_pk u
              \<and> au_account au = account_pk a
              \<and> users_all (fst (BaseAccountUserCreate_post e d req kw)) a = users_all d a @ [au]"
  using assms
  by (auto simp: BaseAccountUserCreate_post_def BaseAccountUserCreate_form_valid_def
      AccountUserAddForm_save_def is_valid_def Let_def users_all_def split: option.splits)

theorem C3_new_user_belongs_to_resolved_account_witness:
  "account_get_object example_env example_db [''account_pk'' \<mapsto> 1] = Inr acme
   \<and> is_valid (get_form (AccountUserAddForm_clean example_env)
                 (example_request [''username'' \<mapsto> ''carol'']))
   \<and> (\<exists>u au. fst (BaseAccountUserCreate_post example_env example_db
                     (example_request [''username'' \<mapsto> ''carol'']) [''account_pk'' \<mapsto> 1])
                = fst (AccountUserAddForm_save example_db
                         (get_form (AccountUserAddForm_clean example_env)
                            (example_request [''username'' \<mapsto> ''carol''])) acme)
            \<and> users (fst (BaseAccountUserCreate_post example_env example_db
                     (example_request [''username'' \<mapsto> ''carol'']) [''account_pk'' \<mapsto> 1]))
                = users example_db @ [u]
            \<and> accountusers (fst (BaseAccountUserCreate_post example_env example_db
                     (example_request [''username'' \<mapsto> ''carol'']) [''account_pk'' \<mapsto> 1]))
                = accountusers example_db @ [au]
            \<and> au_user au = user_pk u
            \<and> au_account au = account_pk acme
            \<and> users_all (fst (BaseAccountUserCreate_post example_env example_db
                     (example_request [''username'' \<mapsto> ''carol'']) [''account_pk'' \<mapsto> 1])) acme
                = users_all example_db acme @ [au])"
proof -
  have h1: "account_get_object example_env example_db [''account_pk'' \<mapsto> 1] = Inr acme"
    by (rule example_get_acme)
  have h2: "is_valid (get_form (AccountUserAddForm_clean example_env)
                 (example_request [''username'' \<mapsto> ''carol'']))"
    by (simp add: is_valid_def get_form_def example_post_valid)
  from C3_new_user_belongs_to_resolved_account [OF h1 h2] h1 h2 show ?thesis
    by (intro conjI)
qed

text \<open>
  Claim C10: for every POST to the account-user creation view whose form is
  invalid, the database is unchanged (\<open>form.save\<close> is not called, so no user and
  no account-user is created), and when the account resolves the response is the
  form-invalid response.
\<close>

theorem C10_invalid_form_creates_nothing:
  assumes "\<not> is_valid (get_form (AccountUserAddForm_clean e) req)"
  shows "fst (BaseAccountUserCreate_post e d req kw) = d
         \<and> (case account_get_object e d kw of
               Inl err \<Rightarrow> snd (BaseAccountUserCreate_post e d req kw) = Inl err
             | Inr a \<Rightarrow> snd (BaseAccountUserCreate_post e d req kw)
                 = Inr (form_invalid accountuser_form_template
                          (get_form (AccountUserAddForm_clean e) req)))"
  using assms
  by (simp add: BaseAccountUserCreate_post_def split: sum.splits)

theorem C10_invalid_form_creates_nothing_witness:
  "\<not> is_valid (get_form (AccountUserAddForm_clean example_env)
                 (example_request [''email'' \<mapsto> ''carol@example.com'']))
   \<and> BaseAccountUserCreate_post example_env example_db
        (example_request [''email'' \<mapsto> ''carol@example.com'']) [''account_pk'' \<mapsto> 1]
     = (example_db,
        Inr (form_invalid accountuser_form_template
               (get_form (AccountUserAddForm_clean example_env)
                  (example_request [''email'' \<mapsto> ''carol@example.com'']))))"
proof -
  have h: "\<not> is_valid (get_form (AccountUserAddForm_clean example_env)
                 (example_request [''email'' \<mapsto> ''carol@example.com'']))"
    by (simp add: is_valid_def get_form_def example_env_def example_request_def
        example_accountuser_clean_def field_def)
  from C10_invalid_form_creates_nothing
         [OF h, of example_db "[''account_pk'' \<mapsto> 1]", unfolded example_get_acme] h
  show ?thesis
    by (simp add: prod_eq_iff)
qed

section \<open>Creating and deleting an account\<close>

text \<open>
  Claim C6: for every valid account-creation form submission, the new account is
  persisted (it is appended to the accounts table under a key no account had, and
  is found there by that key), and the response redirects to the absolute URL of
  that saved account.
\<close>

theorem C6_created_account_is_redirect_target:
  assumes "is_valid (get_form (AccountAddForm_clean e) req)"
  shows "\<exists>a. AccountAddForm_save d (get_form (AccountAddForm_clean e) req)
                = (d\<lparr>accounts := accounts d @ [a]\<rparr>, Inr a)
            \<and> BaseAccountCreate_post e d req
                = (d\<lparr>accounts := accounts d @ [a]\<rparr>,
                   Inr (HttpResponseRedirect (account_get_absolute_url e a)))
            \<and> account_pk a \<notin> account_pk ` set (accounts d)
            \<and> get_row account_pk (account_pk a)
                 (accounts (fst (BaseAccountCreate_post e d req))) = Some a"
proof -
  from assms obtain cd where cd: "form_cleaned (get_form (AccountAddForm_clean e) req) = Some cd"
    by (auto simp: is_valid_def)
  let ?a = "\<lparr>account_pk = next_pk account_pk (accounts d), account_name = ac_name cd\<rparr>"
  have s: "AccountAddForm_save d (get_form (AccountAddForm_clean e) req)
             = (d\<lparr>accounts := accounts d @ [?a]\<rparr>, Inr ?a)"
    by (simp add: AccountAddForm_save_def cd Let_def)
  have p: "BaseAccountCreate_post e d req
             = (d\<lparr>accounts := accounts d @ [?a]\<rparr>,
                Inr (HttpResponseRedirect (account_get_absolute_url e ?a)))"
    using assms
    by (simp add: BaseAccountCreate_post_def BaseAccountCreate_form_valid_def s
        BaseAccountCreate_get_success_url_def FormView_form_valid_def)
  have f: "\<forall>x \<in> set (accounts d). account_pk x \<noteq> account_pk ?a"
    by (simp add: next_pk_fresh)
  then have n: "account_pk ?a \<notin> account_pk ` set (accounts d)" by auto
  have g: "get_row account_pk (account_pk ?a) (accounts d @ [?a]) = Some ?a"
    using f by (rule get_row_append_fresh)
  show ?thesis
    apply (rule exI [of _ ?a])
    using s p n g by (simp del: account.simps)
qed

theorem C6_created_account_is_redirect_target_witness:
  "is_valid (get_form (AccountAddForm_clean example_env)
               (example_request [''name'' \<mapsto> ''Initech'']))
   \<and> BaseAccountCreate_post example_env example_db (example_request [''name'' \<mapsto> ''Initech''])
       = (example_db\<lparr>accounts := accounts example_db
                        @ [\<lparr>account_pk = 3, account_name = ''Initech''\<rparr>]\<rparr>,
          Inr (HttpResponseRedirect ''/accounts/3/''))
   \<and> (\<exists>a. AccountAddForm_save example_db
              (get_form (AccountAddForm_clean example_env)
                 (example_request [''name'' \<mapsto> ''Initech'']))
            = (example_db\<lparr>accounts := accounts example_db @ [a]\<rparr>, Inr a)
          \<and> BaseAccountCreate_post example_env example_db
               (example_request [''name'' \<mapsto> ''Initech''])
            = (example_db\<lparr>accounts := accounts example_db @ [a]\<rparr>,
               Inr (HttpResponseRedirect (account_get_absolute_url example_env a)))
          \<and> account_pk a \<notin> account_pk ` set (accounts example_db)
          \<and> get_row account_pk (account_pk a)
               (accounts (fst (BaseAccountCreate_post example_env example_db
                                 (example_request [''name'' \<mapsto> ''Initech''])))) = Some a)"
proof -
  have c: "AccountAddForm_clean example_env (POST (example_request [''name'' \<mapsto> ''Initech'']))
             = Some \<lparr>ac_name = ''Initech''\<rparr>"
    by (simp add: example_env_def example_request_def example_account_clean_def field_def)
  have h: "is_valid (get_form (AccountAddForm_clean example_env)
               (example_request [''name'' \<mapsto> ''Initech'']))"
    by (simp add: is_valid_def get_form_def c)
  have p: "BaseAccountCreate_post example_env example_db
             (example_request [''name'' \<mapsto> ''Initech''])
       = (example_db\<lparr>accounts := accounts example_db
                        @ [\<lparr>account_pk = 3, account_name = ''Initech''\<rparr>]\<rparr>,
          Inr (HttpResponseRedirect ''/accounts/3/''))"
    by (simp add: BaseAccountCreate_post_def BaseAccountCreate_form_valid_def
        BaseAccountCreate_get_success_url_def FormView_form_valid_def AccountAddForm_save_def
        get_form_def is_valid_def c Let_def example_next_account_pk)
       (simp add: example_env_def show_nat_examples)
  from C6_created_account_is_redirect_target [OF h, of example_db] h p show ?thesis
    by (intro conjI)
qed

text \<open>
  Claim C7: every successful account deletion redirects to the URL reversed from
  the route \<open>account_list\<close>, whichever account was deleted: two successful
  deletions, of any accounts in any databases, give the same response.
\<close>

theorem C7_account_delete_redirects_to_account_list:
  assumes "BaseAccountDelete_delete e d1 kw1 = (d1', Inr r1)"
    and "BaseAccountDelete_delete e d2 kw2 = (d2', Inr r2)"
  shows "r1 = r2 \<and> (\<exists>target. reverse e ''account_list'' = Inr target
                       \<and> r1 = HttpResponseRedirect target)"
  using assms
  by (auto simp: BaseAccountDelete_delete_def BaseAccountDelete_get_success_url_def Let_def
      split: sum.splits)

theorem C7_account_delete_redirects_to_account_list_witness:
  "(BaseAccountDelete_delete example_env example_db [''account_pk'' \<mapsto> 1]
      :: db \<times> (error + unit response))
     = (account_delete example_db acme, Inr (HttpResponseRedirect ''/accounts/''))
   \<and> (BaseAccountDelete_delete example_env example_db [''account_pk'' \<mapsto> 2]
      :: db \<times> (error + unit response))
     = (account_delete example_db globex, Inr (HttpResponseRedirect ''/accounts/''))
   \<and> reverse example_env ''account_list'' = Inr ''/accounts/''"
proof -
  have h1: "(BaseAccountDelete_delete example_env example_db [''account_pk'' \<mapsto> 1]
      :: db \<times> (error + unit response))
     = (account_delete example_db acme, Inr (HttpResponseRedirect ''/accounts/''))"
    by (simp add: BaseAccountDelete_delete_def BaseAccountDelete_get_success_url_def reverse_def
        example_env_def example_urls_def get_account_by_pk_def get_row_def example_db_def
        acme_def globex_def)
  have h2: "(BaseAccountDelete_delete example_env example_db [''account_pk'' \<mapsto> 2]
      :: db \<times> (error + unit response))
     = (account_delete example_db globex, Inr (HttpResponseRedirect ''/accounts/''))"
    by (simp add: BaseAccountDelete_delete_def BaseAccountDelete_get_success_url_def reverse_def
        example_env_def example_urls_def get_account_by_pk_def get_row_def example_db_def
        acme_def globex_def)
  from C7_account_delete_redirects_to_account_list [OF h1 h2] h1 h2 show ?thesis
    by auto
qed




section \<open>Editing the own profile\<close>

text \<open>
  What a valid profile submission stores: the request's user with the four
  submitted fields, and with the hash of the submitted password when that is not
  empty.
\<close>

lemma profile_post_valid:
  assumes "ProfileUserForm_clean e (POST req) = Some cd"
  shows "fst (UserProfileView_post e d req) =
           user_save d ((request_user req)
             \<lparr>username := cd_username cd, first_name := cd_first_name cd,
              last_name := cd_last_name cd, email := cd_email cd,
              password := (if cd_password1 cd \<noteq> [] then make_password e (cd_password1 cd)
                           else password (request_user req))\<rparr>)"
  using assms
  by (simp add: UserProfileView_post_def get_form_def is_valid_def
      UserProfileView_form_valid_def set_password_def Let_def)

text \<open>
  Claim C4: for every valid profile form submission by a user whose stored row
  is the request's user, the stored user name, first name, last name and email
  become the submitted values; the stored credential becomes the hash of the
  submitted password when that is non-empty, and stays what it was when the
  password field is empty.
\<close>

theorem C4_profile_update_stores_fields_and_credential:
  assumes "ProfileUserForm_clean e (POST req) = Some cd"
    and "get_row user_pk (user_pk (request_user req)) (users d) = Some (request_user req)"
  shows "\<exists>old new.
           get_row user_pk (user_pk (request_user req)) (users d) = Some old
         \<and> get_row user_pk (user_pk (request_user req))
               (users (fst (UserProfileView_post e d req))) = Some new
         \<and> username new = cd_username cd
         \<and> first_name new = cd_first_name cd
         \<and> last_name new = cd_last_name cd
         \<and> email new = cd_email cd
         \<and> password new =
               (if cd_password1 cd = [] then password old
                else make_password e (cd_password1 cd))"
proof -
  define new where "new = (request_user req)
             \<lparr>username := cd_username cd, first_name := cd_first_name cd,
              last_name := cd_last_name cd, email := cd_email cd,
              password := (if cd_password1 cd \<noteq> [] then make_password e (cd_password1 cd)
                           else password (request_user req))\<rparr>"
  have k: "user_pk new = user_pk (request_user req)"
    by (simp add: new_def)
  have "fst (UserProfileView_post e d req) = user_save d new"
    unfolding new_def by (rule profile_post_valid [OF assms(1)])
  then have "get_row user_pk (user_pk (request_user req))
               (users (fst (UserProfileView_post e d req))) = Some new"
    by (simp add: user_save_def get_row_save_row_key k)
  with assms(2) show ?thesis
    by (auto simp: new_def)
qed

theorem C4_profile_update_stores_fields_and_credential_witness:
  "ProfileUserForm_clean example_env
     (POST (example_request [''username'' \<mapsto> ''alice2'', ''email'' \<mapsto> ''a2@example.com'',
                             ''password1'' \<mapsto> ''new'']))
   = Some \<lparr>cd_username = ''alice2'', cd_first_name = [], cd_last_name = [],
           cd_email = ''a2@example.com'', cd_password1 = ''new'', cd_referrer = Some []\<rparr>
   \<and> get_row user_pk 1 (users example_db) = Some alice
   \<and> (\<exists>new. get_row user_pk 1
               (users (fst (UserProfileView_post example_env example_db
                  (example_request [''username'' \<mapsto> ''alice2'', ''email'' \<mapsto> ''a2@example.com'',
                                    ''password1'' \<mapsto> ''new''])))) = Some new
           \<and> username new = ''alice2''
           \<and> email new = ''a2@example.com''
           \<and> password new = ''plain$new'')"
proof -
  let ?req = "example_request [''username'' \<mapsto> ''alice2'', ''email'' \<mapsto> ''a2@example.com'',
                             ''password1'' \<mapsto> ''new'']"
  have r: "request_user ?req = alice" "user_pk alice = 1"
    by (simp_all add: example_request_def alice_def)
  have m: "make_password example_env ''new'' = ''plain$new''"
    by (simp add: example_env_def)
  note h1 = example_profile_valid
  have h2: "get_row user_pk (user_pk (request_user ?req)) (users example_db)
              = Some (request_user ?req)"
    by (rule example_alice_stored)
  from C4_profile_update_stores_fields_and_credential [OF h1 h2, simplified r]
    h1 h2 [simplified r] m
  show ?thesis by auto
qed

text \<open>
  Claim C9: for every valid profile form submission, every field of the stored
  user other than user name, first name, last name, email and (when a non-empty
  password is submitted) the password hash is unchanged: putting the old values
  of those five fields back into the new row gives the old row.
\<close>

theorem C9_profile_update_frame:
  assumes "ProfileUserForm_clean e (POST req) = Some cd"
    and "get_row user_pk (user_pk (request_user req)) (users d) = Some (request_user req)"
  shows "\<exists>old new.
           get_row user_pk (user_pk (request_user req)) (users d) = Some old
         \<and> get_row user_pk (user_pk (request_user req))
               (users (fst (UserProfileView_post e d req))) = Some new
         \<and> user_pk new = user_pk old
         \<and> is_staff new = is_staff old
         \<and> is_active new = is_active old
         \<and> is_superuser new = is_superuser old
         \<and> last_login new = last_login old
         \<and> date_joined new = date_joined old
         \<and> (cd_password1 cd = [] \<longrightarrow> password new = password old)
         \<and> new\<lparr>username := username old, first_name := first_name old,
                last_name := last_name old, email := email old,
                password := password old\<rparr> = old"
proof -
  define new where "new = (request_user req)
             \<lparr>username := cd_username cd, first_name := cd_first_name cd,
              last_name := cd_last_name cd, email := cd_email cd,
              password := (if cd_password1 cd \<noteq> [] then make_password e (cd_password1 cd)
                           else password (request_user req))\<rparr>"
  have k: "user_pk new = user_pk (request_user req)"
    by (simp add: new_def)
  have "fst (UserProfileView_post e d req) = user_save d new"
    unfolding new_def by (rule profile_post_valid [OF assms(1)])
  then have "get_row user_pk (user_pk (request_user req))
               (users (fst (UserProfileView_post e d req))) = Some new"
    by (simp add: user_save_def get_row_save_row_key k)
  with assms(2) show ?thesis
    by (auto simp: new_def)
qed

theorem C9_profile_update_frame_witness:
  "ProfileUserForm_clean example_env
     (POST (example_request [''username'' \<mapsto> ''alice2'', ''email'' \<mapsto> ''a2@example.com'',
                             ''password1'' \<mapsto> ''new'']))
   = Some \<lparr>cd_username = ''alice2'', cd_first_name = [], cd_last_name = [],
           cd_email = ''a2@example.com'', cd_password1 = ''new'', cd_referrer = Some []\<rparr>
   \<and> get_row user_pk 1 (users example_db) = Some alice
   \<and> (\<exists>new. get_row user_pk 1
               (users (fst (UserProfileView_post example_env example_db
                  (example_request [''username'' \<mapsto> ''alice2'', ''email'' \<mapsto> ''a2@example.com'',
                                    ''password1'' \<mapsto> ''new''])))) = Some new
           \<and> user_pk new = 1
           \<and> is_staff new
           \<and> is_active new
           \<and> \<not> is_superuser new
           \<and> last_login new = 7
           \<and> date_joined new = 3)"
proof -
  let ?req = "example_request [''username'' \<mapsto> ''alice2'', ''email'' \<mapsto> ''a2@example.com'',
                             ''password1'' \<mapsto> ''new'']"
  have r: "request_user ?req = alice" "user_pk alice = 1"
    by (simp_all add: example_request_def alice_def)
  have a: "is_staff alice" "is_active alice" "\<not> is_superuser alice"
    "last_login alice = 7" "date_joined alice = 3"
    by (simp_all add: alice_def)
  note h1 = example_profile_valid
  have h2: "get_row user_pk (user_pk (request_user ?req)) (users example_db)
              = Some (request_user ?req)"
    by (rule example_alice_stored)
  from C9_profile_update_frame [OF h1 h2, simplified r]
    h1 h2 [simplified r] a r(2)
  show ?thesis by auto
qed

text \<open>
  Claim C5: for every valid profile form submission, the response is a redirect
  to the referrer carried in the form when that is non-empty, and to \<^verbatim>\<open>/\<close> when
  it is empty or absent.
\<close>

theorem C5_redirect_target:
  assumes "ProfileUserForm_clean e (POST req) = Some cd"
  shows "snd (UserProfileView_post e d req) =
           Inr (HttpResponseRedirect
                  (case cd_referrer cd of
                     None \<Rightarrow> ''/''
                   | Some r \<Rightarrow> if r = [] then ''/'' else r))"
  using assms
  by (simp add: UserProfileView_post_def get_form_def is_valid_def
      UserProfileView_form_valid_def success_redirect_def success_url_def Let_def
      split: option.splits)

theorem C5_redirect_target_witness:
  "ProfileUserForm_clean example_env
       (POST (example_request [''username'' \<mapsto> ''alice'', ''referrer'' \<mapsto> ''/accounts/1/'']))
     = Some \<lparr>cd_username = ''alice'', cd_first_name = [], cd_last_name = [], cd_email = [],
             cd_password1 = [], cd_referrer = Some ''/accounts/1/''\<rparr>
   \<and> snd (UserProfileView_post example_env example_db
            (example_request [''username'' \<mapsto> ''alice'', ''referrer'' \<mapsto> ''/accounts/1/'']))
     = Inr (HttpResponseRedirect ''/accounts/1/'')"
proof -
  let ?req = "example_request [''username'' \<mapsto> ''alice'', ''referrer'' \<mapsto> ''/accounts/1/'']"
  let ?cd = "\<lparr>cd_username = ''alice'', cd_first_name = [], cd_last_name = [], cd_email = [],
             cd_password1 = [], cd_referrer = Some ''/accounts/1/''\<rparr>"
  have h: "ProfileUserForm_clean example_env (POST ?req) = Some ?cd"
    by (simp add: example_env_def example_request_def example_profile_clean_def field_def)
  from C5_redirect_target [OF h, of example_db] h show ?thesis by simp
qed

end
